theory Spec2Isabelle
  imports Complex_Main
begin

section \<open>Maxwell's demon: the simulation variants of the repository\<close>

text \<open>
  The repository holds several variants of one simulation. Each is embedded
  below from its own source file. Python floats are taken as real numbers:
  comparison, sign negation and clamping to a constant are exact on both, and the
  position update \<open>x += v * 0.01\<close> is the real sum. Drawing calls
  (scatter, trapdoor, text) do not touch the simulation state and are left out.
\<close>

subsection \<open>The array variants: shared state\<close>

text \<open>
  Maxwell_demon_animated.py, MAXXXX.py and Max_DEMON.py keep the particles in the
  global arrays \<open>positions\<close> and \<open>velocities\<close> and the demon's memory in
  the global list \<open>memory_bits\<close>. The arrays are created with \<open>n_particles\<close>
  entries; the loops below run over \<open>range(n)\<close> for any \<open>n\<close>, and the source
  fixes \<open>n = n_particles\<close>.
\<close>

record globals =
  positions :: "real list"
  velocities :: "real list"
  memory_bits :: "bool list"

definition n_particles :: nat where
  "n_particles = 20"

text \<open>The assignments \<open>positions[i] = v\<close>, \<open>velocities[i] = v\<close> and \<open>memory_bits.append(True)\<close>.\<close>

definition set_position :: "nat \<Rightarrow> real \<Rightarrow> globals \<Rightarrow> globals" where
  "set_position i v g = g\<lparr>positions := (positions g)[i := v]\<rparr>"

definition set_velocity :: "nat \<Rightarrow> real \<Rightarrow> globals \<Rightarrow> globals" where
  "set_velocity i v g = g\<lparr>velocities := (velocities g)[i := v]\<rparr>"

definition append_bit :: "globals \<Rightarrow> globals" where
  "append_bit g = g\<lparr>memory_bits := memory_bits g @ [True]\<rparr>"

subsection \<open>Maxwell_demon_animated.py\<close>

text \<open>Lines 40 to 44: the move has no time step and the walls only turn the velocity.\<close>

definition move_animated :: "nat \<Rightarrow> globals \<Rightarrow> globals" where
  "move_animated i g =
     (let g1 = set_position i (positions g ! i + velocities g ! i) g in
      if positions g1 ! i < 0 \<or> positions g1 ! i > 2
      then set_velocity i (velocities g1 ! i * -1) g1 else g1)"

text \<open>Lines 47 to 49; the second component is \<open>trapdoor_open\<close>.\<close>

definition demon_animated :: "nat \<Rightarrow> globals \<times> bool \<Rightarrow> globals \<times> bool" where
  "demon_animated i s =
     (let (g, trapdoor) = s in
      if (0.98 < positions g ! i \<and> positions g ! i < 1.0)
         \<and> (2 < velocities g ! i \<and> velocities g ! i < 4)
      then (append_bit g, True) else (g, trapdoor))"

definition body_animated :: "nat \<Rightarrow> globals \<times> bool \<Rightarrow> globals \<times> bool" where
  "body_animated i s = demon_animated i (move_animated i (fst s), snd s)"

definition update_animated_n :: "nat \<Rightarrow> globals \<Rightarrow> globals" where
  "update_animated_n n g = fst (foldl (\<lambda>s i. body_animated i s) (g, False) [0..<n])"

definition update_animated :: "globals \<Rightarrow> globals" where
  "update_animated = update_animated_n n_particles"

subsection \<open>MAXXXX.py\<close>

text \<open>Lines 47 to 56, the same in Max_DEMON.py (lines 46 to 55).\<close>

definition move_array :: "nat \<Rightarrow> globals \<Rightarrow> globals" where
  "move_array i g =
     (let g1 = set_position i (positions g ! i + velocities g ! i * 0.01) g in
      if positions g1 ! i < 0
      then set_velocity i (velocities g1 ! i * -1) (set_position i 0 g1)
      else if positions g1 ! i > 2
      then set_velocity i (velocities g1 ! i * -1) (set_position i 2 g1)
      else g1)"

text \<open>Lines 59 to 66.\<close>

definition demon_MAXXXX :: "nat \<Rightarrow> globals \<times> bool \<Rightarrow> globals \<times> bool" where
  "demon_MAXXXX i s =
     (let (g, trapdoor) = s in
      if 0.98 < positions g ! i \<and> positions g ! i < 1.02 then
        (if \<bar>velocities g ! i\<bar> \<noteq> 2 then (append_bit g, True)
         else (set_velocity i (velocities g ! i * -1) g, trapdoor))
      else (g, trapdoor))"

definition body_MAXXXX :: "nat \<Rightarrow> globals \<times> bool \<Rightarrow> globals \<times> bool" where
  "body_MAXXXX i s = demon_MAXXXX i (move_array i (fst s), snd s)"

definition update_MAXXXX_n :: "nat \<Rightarrow> globals \<Rightarrow> globals" where
  "update_MAXXXX_n n g = fst (foldl (\<lambda>s i. body_MAXXXX i s) (g, False) [0..<n])"

definition update_MAXXXX :: "globals \<Rightarrow> globals" where
  "update_MAXXXX = update_MAXXXX_n n_particles"

subsection \<open>Max_DEMON.py\<close>

text \<open>Lines 58 to 72. The frame counter \<open>t\<close> is written and never read; it is left out.\<close>

definition demon_Max_DEMON :: "nat \<Rightarrow> globals \<times> bool \<Rightarrow> globals \<times> bool" where
  "demon_Max_DEMON i s =
     (let (g, trapdoor) = s in
      if 0.98 < positions g ! i \<and> positions g ! i < 1.02 then
        (if positions g ! i < 1.0 \<and> \<bar>velocities g ! i\<bar> > 2.0
         then (append_bit (set_position i (positions g ! i + 0.04) g), True)
         else if positions g ! i > 1.0 \<and> \<bar>velocities g ! i\<bar> < 2.0
         then (append_bit (set_position i (positions g ! i - 0.04) g), True)
         else (set_velocity i (velocities g ! i * -1) g, trapdoor))
      else (g, trapdoor))"

definition body_Max_DEMON :: "nat \<Rightarrow> globals \<times> bool \<Rightarrow> globals \<times> bool" where
  "body_Max_DEMON i s = demon_Max_DEMON i (move_array i (fst s), snd s)"

definition update_Max_DEMON_n :: "nat \<Rightarrow> globals \<Rightarrow> globals" where
  "update_Max_DEMON_n n g = fst (foldl (\<lambda>s i. body_Max_DEMON i s) (g, False) [0..<n])"

definition update_Max_DEMON :: "globals \<Rightarrow> globals" where
  "update_Max_DEMON = update_Max_DEMON_n n_particles"

subsection \<open>Maxwell_Demon_POO.py\<close>

record particle_POO =
  x :: real
  y :: real
  velocity :: real
  cut_velocity :: real

definition Particle_POO :: "real \<Rightarrow> real \<Rightarrow> real \<Rightarrow> real \<Rightarrow> particle_POO" where
  "Particle_POO x0 y0 v0 cut0 = \<lparr>x = x0, y = y0, velocity = v0, cut_velocity = cut0\<rparr>"

definition move_POO :: "particle_POO \<Rightarrow> particle_POO" where
  "move_POO p =
     (let p1 = p\<lparr>x := x p + velocity p * 0.01\<rparr> in
      if x p1 < 0 then p1\<lparr>x := 0, velocity := velocity p1 * -1\<rparr>
      else if x p1 > 2 then p1\<lparr>x := 2, velocity := velocity p1 * -1\<rparr>
      else p1)"

definition is_fast_POO :: "particle_POO \<Rightarrow> bool" where
  "is_fast_POO p = (\<bar>velocity p\<bar> > cut_velocity p)"

text \<open>
  Lines 90 to 102 of \<open>update\<close>. The pair of accumulators is
  \<open>self.memory_bits\<close> and \<open>trapdoor_open\<close>.
\<close>

definition demon_logic_POO ::
  "particle_POO \<Rightarrow> bool list \<times> bool \<Rightarrow> particle_POO \<times> bool list \<times> bool" where
  "demon_logic_POO p a =
     (let (bits, trapdoor) = a in
      if 0.95 < x p \<and> x p < 1.05 then
        (if is_fast_POO p then
           (if velocity p > 0 then (p\<lparr>velocity := velocity p * -1\<rparr>, bits, trapdoor)
            else if velocity p < 0 then (p, bits @ [True], True)
            else (p, bits, trapdoor))
         else
           (if velocity p > 0 then (p, bits @ [True], True)
            else if velocity p < 0 then (p\<lparr>velocity := velocity p * -1\<rparr>, bits, trapdoor)
            else (p, bits, trapdoor)))
      else (p, bits, trapdoor))"

fun update_loop_POO ::
  "particle_POO list \<Rightarrow> bool list \<times> bool \<Rightarrow> particle_POO list \<times> bool list \<times> bool" where
  "update_loop_POO [] a = ([], a)"
| "update_loop_POO (p # ps) a =
     (let (p', a') = demon_logic_POO (move_POO p) a;
          (ps', a'') = update_loop_POO ps a'
      in (p' # ps', a''))"

record MaxwellDemon_POO =
  particles :: "particle_POO list"
  memory_bits :: "bool list"

text \<open>\<open>MaxwellDemon.__init__\<close> without the random draw: the particles are given.\<close>

definition MaxwellDemon_POO_init :: "particle_POO list \<Rightarrow> MaxwellDemon_POO" where
  "MaxwellDemon_POO_init ps = \<lparr>particles = ps, memory_bits = []\<rparr>"

definition update_POO :: "MaxwellDemon_POO \<Rightarrow> MaxwellDemon_POO" where
  "update_POO d =
     (let (ps', bits, trapdoor) = update_loop_POO (particles d) (memory_bits d, False)
      in d\<lparr>particles := ps', memory_bits := bits\<rparr>)"

fun run_POO :: "nat \<Rightarrow> MaxwellDemon_POO \<Rightarrow> MaxwellDemon_POO" where
  "run_POO 0 d = d"
| "run_POO (Suc n) d = run_POO n (update_POO d)"

subsection \<open>Maxwell_Demon_POO_2D_energy.py\<close>

record particle =
  x :: real
  y :: real
  velocity_x :: real
  velocity_y :: real
  cut_velocity :: real
  processed :: bool

text \<open>\<open>Particle.__init__\<close>: a new particle is not processed.\<close>

definition Particle :: "real \<Rightarrow> real \<Rightarrow> real \<Rightarrow> real \<Rightarrow> real \<Rightarrow> particle" where
  "Particle x0 y0 vx0 vy0 cut0 =
     \<lparr>x = x0, y = y0, velocity_x = vx0, velocity_y = vy0, cut_velocity = cut0,
      processed = False\<rparr>"

text \<open>The barrier region test \<open>0.95 < x < 1.05\<close> of \<open>move\<close> and \<open>update\<close>.\<close>

definition in_barrier :: "real \<Rightarrow> bool" where
  "in_barrier px = (0.95 < px \<and> px < 1.05)"

text \<open>
  \<open>Particle.move\<close> in the order of the source: both coordinates advance (lines 17
  and 18), the walls in x (lines 21 to 26), the walls in y (lines 29 to 34), the reset
  of the flag (lines 37 and 38).
\<close>

definition advance :: "particle \<Rightarrow> particle" where
  "advance p =
     (let p1 = p\<lparr>x := x p + velocity_x p * 0.01\<rparr>
      in p1\<lparr>y := y p1 + velocity_y p1 * 0.01\<rparr>)"

definition walls_x :: "particle \<Rightarrow> particle" where
  "walls_x p =
     (if x p < 0 then p\<lparr>x := 0, velocity_x := velocity_x p * -1\<rparr>
      else if x p > 2 then p\<lparr>x := 2, velocity_x := velocity_x p * -1\<rparr>
      else p)"

definition walls_y :: "particle \<Rightarrow> particle" where
  "walls_y p =
     (if y p < -1 then p\<lparr>y := -1, velocity_y := velocity_y p * -1\<rparr>
      else if y p > 1 then p\<lparr>y := 1, velocity_y := velocity_y p * -1\<rparr>
      else p)"

definition reset_processed :: "particle \<Rightarrow> particle" where
  "reset_processed p = (if \<not> in_barrier (x p) then p\<lparr>processed := False\<rparr> else p)"

definition move :: "particle \<Rightarrow> particle" where
  "move p = reset_processed (walls_y (walls_x (advance p)))"

definition is_fast :: "particle \<Rightarrow> bool" where
  "is_fast p = (\<bar>velocity_x p\<bar> > cut_velocity p)"

text \<open>
  The accumulators of one call of \<open>update\<close>: \<open>self.memory_bits\<close>,
  \<open>trapdoor_open\<close> and \<open>new_bits_added\<close>.
\<close>

record frame_acc =
  acc_bits :: "bool list"
  trapdoor_open :: bool
  new_bits_added :: int

definition allow :: "frame_acc \<Rightarrow> frame_acc" where
  "allow a = a\<lparr>trapdoor_open := True, acc_bits := acc_bits a @ [True],
               new_bits_added := new_bits_added a + 1\<rparr>"

definition bounce :: "particle \<Rightarrow> particle" where
  "bounce p = p\<lparr>velocity_x := velocity_x p * -1\<rparr>"

text \<open>The guard of line 126: the particle is in the region and not yet processed.\<close>

definition judged :: "particle \<Rightarrow> bool" where
  "judged p = (in_barrier (x p) \<and> \<not> processed p)"

text \<open>The body of the \<open>if\<close> of line 126 (lines 127 to 142).\<close>

definition decide :: "particle \<Rightarrow> frame_acc \<Rightarrow> particle \<times> frame_acc" where
  "decide p a =
     (let p1 = p\<lparr>processed := True\<rparr> in
      if is_fast p1 then
        (if velocity_x p1 > 0 then (bounce p1, a) else (p1, allow a))
      else
        (if velocity_x p1 > 0 then (p1, allow a) else (bounce p1, a)))"

definition demon_logic :: "particle \<Rightarrow> frame_acc \<Rightarrow> particle \<times> frame_acc" where
  "demon_logic p a = (if judged p then decide p a else (p, a))"

text \<open>The loop \<open>for particle in self.particles\<close> of \<open>update\<close>.\<close>

fun update_loop :: "particle list \<Rightarrow> frame_acc \<Rightarrow> particle list \<times> frame_acc" where
  "update_loop [] a = ([], a)"
| "update_loop (p # ps) a =
     (let (p', a') = demon_logic (move p) a;
          (ps', a'') = update_loop ps a'
      in (p' # ps', a''))"

record MaxwellDemon =
  particles :: "particle list"
  memory_bits :: "bool list"
  energy_cost :: "real list"
  bit_history :: "int list"

definition landauer_constant :: real where
  "landauer_constant = ln 2"

text \<open>\<open>MaxwellDemon.__init__\<close> without the random draw: the particles are given.\<close>

definition MaxwellDemon_init :: "particle list \<Rightarrow> MaxwellDemon" where
  "MaxwellDemon_init ps =
     \<lparr>particles = ps, memory_bits = [], energy_cost = [], bit_history = []\<rparr>"

definition update :: "MaxwellDemon \<Rightarrow> MaxwellDemon" where
  "update d =
     (let (ps', a) = update_loop (particles d)
                       \<lparr>acc_bits = memory_bits d, trapdoor_open = False,
                        new_bits_added = 0\<rparr>;
          d1 = d\<lparr>particles := ps', memory_bits := acc_bits a\<rparr>
      in if new_bits_added a > 0 then
           (let total_bits = int (length (memory_bits d1));
                energy = of_int total_bits * landauer_constant
            in d1\<lparr>bit_history := bit_history d1 @ [total_bits],
                  energy_cost := energy_cost d1 @ [energy]\<rparr>)
         else d1)"

text \<open>\<open>frames\<close> calls of \<open>update\<close>, as the animation makes them.\<close>

fun run :: "nat \<Rightarrow> MaxwellDemon \<Rightarrow> MaxwellDemon" where
  "run 0 d = d"
| "run (Suc n) d = run n (update d)"

subsection \<open>What one particle sees\<close>

text \<open>
  The loops treat the particles one after the other and a particle is read and
  written at its own turn only. The functions below cut one particle's share out of
  the loop body: what the demon does to it, whether the trapdoor opens for it, and its
  state after \<open>k\<close> frames.
\<close>

definition acc0 :: frame_acc where
  "acc0 = \<lparr>acc_bits = [], trapdoor_open = False, new_bits_added = 0\<rparr>"

definition gate :: "particle \<Rightarrow> particle" where
  "gate p = fst (demon_logic p acc0)"

definition gate_opens :: "particle \<Rightarrow> bool" where
  "gate_opens p = trapdoor_open (snd (demon_logic p acc0))"

definition particle_step :: "particle \<Rightarrow> particle" where
  "particle_step p = gate (move p)"

text \<open>
  The crossings the gate allows in the frame that starts in state \<open>d\<close>: the
  particles for which the trapdoor opens after their move.
\<close>

definition crossings :: "MaxwellDemon \<Rightarrow> nat" where
  "crossings d = length (filter (\<lambda>p. gate_opens (move p)) (particles d))"

text \<open>
  In \<open>k\<close> consecutive frames: is the particle in the barrier region after each
  move, and in how many of the frames is the guard of line 126 true, so that the
  decision rule runs.
\<close>

fun stays_in :: "nat \<Rightarrow> particle \<Rightarrow> bool" where
  "stays_in 0 p = True"
| "stays_in (Suc k) p = (in_barrier (particle.x (move p)) \<and> stays_in k (particle_step p))"

fun judgements :: "nat \<Rightarrow> particle \<Rightarrow> nat" where
  "judgements 0 p = 0"
| "judgements (Suc k) p =
     (if judged (move p) then 1 else 0) + judgements k (particle_step p)"

text \<open>
  What the gate itself does to one particle over \<open>k\<close> consecutive frames, read off
  the result of \<open>demon_logic\<close>: in how many of the frames it changes the particle or
  the accumulators, and how many bits it appends to the memory.
\<close>

fun gate_acts :: "nat \<Rightarrow> particle \<Rightarrow> nat" where
  "gate_acts 0 p = 0"
| "gate_acts (Suc k) p =
     (if demon_logic (move p) acc0 = (move p, acc0) then 0 else 1)
       + gate_acts k (particle_step p)"

fun bits_committed :: "nat \<Rightarrow> particle \<Rightarrow> nat" where
  "bits_committed 0 p = 0"
| "bits_committed (Suc k) p =
     length (acc_bits (snd (demon_logic (move p) acc0))) + bits_committed k (particle_step p)"

text \<open>The same for Maxwell_Demon_POO.py, whose rule runs under the guard of line 90.\<close>

definition judged_POO :: "particle_POO \<Rightarrow> bool" where
  "judged_POO p = (0.95 < particle_POO.x p \<and> particle_POO.x p < 1.05)"

definition gate_POO :: "particle_POO \<Rightarrow> particle_POO" where
  "gate_POO p = fst (demon_logic_POO p ([], False))"

definition gate_opens_POO :: "particle_POO \<Rightarrow> bool" where
  "gate_opens_POO p = snd (snd (demon_logic_POO p ([], False)))"

definition particle_step_POO :: "particle_POO \<Rightarrow> particle_POO" where
  "particle_step_POO p = gate_POO (move_POO p)"

fun stays_in_POO :: "nat \<Rightarrow> particle_POO \<Rightarrow> bool" where
  "stays_in_POO 0 p = True"
| "stays_in_POO (Suc k) p = (judged_POO (move_POO p) \<and> stays_in_POO k (particle_step_POO p))"

fun judgements_POO :: "nat \<Rightarrow> particle_POO \<Rightarrow> nat" where
  "judgements_POO 0 p = 0"
| "judgements_POO (Suc k) p =
     (if judged_POO (move_POO p) then 1 else 0) + judgements_POO k (particle_step_POO p)"

text \<open>MAXXXX.py: does the trapdoor open at the turn of particle \<open>i\<close>.\<close>

definition opens_MAXXXX :: "nat \<Rightarrow> globals \<Rightarrow> bool" where
  "opens_MAXXXX i g = snd (body_MAXXXX i (g, False))"

text \<open>
  The energy the plot of Maxwell_Demon_POO_2D_energy.py shows last: the last entry of
  \<open>energy_cost\<close>, and nothing (zero) before the first bit.
\<close>

definition cumulative_energy :: "MaxwellDemon \<Rightarrow> real" where
  "cumulative_energy d = (if energy_cost d = [] then 0 else last (energy_cost d))"

text \<open>
  The ledger invariant: every energy sample is its bit sample times \<open>ln 2\<close>, and the
  last bit sample is the number of bits in memory.
\<close>

definition ledger_ok :: "MaxwellDemon \<Rightarrow> bool" where
  "ledger_ok d =
     (energy_cost d = map (\<lambda>b. of_int b * ln 2) (bit_history d)
      \<and> (if bit_history d = [] then memory_bits d = []
         else last (bit_history d) = int (length (memory_bits d))))"


section \<open>Properties\<close>

subsection \<open>The loop of Maxwell_Demon_POO_2D_energy.py, particle by particle\<close>

lemma demon_logic_split:
  "demon_logic p a = (gate p, if gate_opens p then allow a else a)"
  by (simp add: demon_logic_def gate_def gate_opens_def decide_def Let_def allow_def acc0_def)

lemma update_loop_eq:
  "update_loop ps a =
     (map particle_step ps,
      a\<lparr>acc_bits := acc_bits a @ replicate (length (filter (\<lambda>p. gate_opens (move p)) ps)) True,
        trapdoor_open := trapdoor_open a \<or> (\<exists>p \<in> set ps. gate_opens (move p)),
        new_bits_added := new_bits_added a + int (length (filter (\<lambda>p. gate_opens (move p)) ps))\<rparr>)"
proof (induction ps arbitrary: a)
  case Nil
  show ?case by simp
next
  case (Cons p ps)
  show ?case
    by (simp add: Cons.IH demon_logic_split particle_step_def allow_def replicate_app_Cons_same)
qed

lemma update_particles: "particles (update d) = map particle_step (particles d)"
  by (simp add: update_def update_loop_eq Let_def)

lemma update_memory_bits:
  "memory_bits (update d) = memory_bits d @ replicate (crossings d) True"
  by (simp add: update_def update_loop_eq Let_def crossings_def)

lemma update_bit_history:
  "bit_history (update d) =
     (if 0 < crossings d
      then bit_history d @ [int (length (memory_bits (update d)))] else bit_history d)"
  by (simp add: update_def update_loop_eq Let_def crossings_def)

lemma update_energy_cost:
  "energy_cost (update d) =
     (if 0 < crossings d
      then energy_cost d @ [of_int (int (length (memory_bits (update d)))) * ln 2]
      else energy_cost d)"
  by (simp add: update_def update_loop_eq Let_def landauer_constant_def crossings_def)

lemma bits_changed_iff:
  "length (memory_bits (update d)) \<noteq> length (memory_bits d) \<longleftrightarrow> 0 < crossings d"
  by (simp add: update_memory_bits)

lemma run_particles: "particles (run n d) = map (particle_step ^^ n) (particles d)"
  by (induction n arbitrary: d) (simp_all add: update_particles funpow_swap1)

subsection \<open>One particle of Maxwell_Demon_POO_2D_energy.py\<close>

lemma move_velocity_x:
  "velocity_x (move p) = velocity_x p \<or> velocity_x (move p) = - velocity_x p"
  by (simp add: move_def advance_def walls_x_def walls_y_def reset_processed_def Let_def)

lemma move_velocity_y:
  "velocity_y (move p) = velocity_y p \<or> velocity_y (move p) = - velocity_y p"
  by (simp add: move_def advance_def walls_x_def walls_y_def reset_processed_def Let_def)

lemma move_cut: "particle.cut_velocity (move p) = particle.cut_velocity p"
  by (simp add: move_def advance_def walls_x_def walls_y_def reset_processed_def Let_def)

lemma gate_unfold:
  "gate q = (if judged q then
       (if is_fast q = (0 < velocity_x q) then q\<lparr>processed := True, velocity_x := - velocity_x q\<rparr>
        else q\<lparr>processed := True\<rparr>)
     else q)"
  by (auto simp add: gate_def demon_logic_def decide_def Let_def bounce_def is_fast_def)

lemma gate_opens_unfold:
  "gate_opens q = (judged q \<and> is_fast q \<noteq> (0 < velocity_x q))"
  by (auto simp add: gate_opens_def demon_logic_def decide_def Let_def allow_def acc0_def is_fast_def)

lemma gate_velocity_x:
  "velocity_x (gate q) = velocity_x q \<or> velocity_x (gate q) = - velocity_x q"
  by (simp add: gate_unfold)

lemma gate_keeps:
  "particle.x (gate q) = particle.x q \<and> particle.y (gate q) = particle.y q
   \<and> velocity_y (gate q) = velocity_y q \<and> particle.cut_velocity (gate q) = particle.cut_velocity q"
  by (simp add: gate_unfold)

lemma particle_step_abs: "\<bar>velocity_x (particle_step p)\<bar> = \<bar>velocity_x p\<bar>"
  using move_velocity_x [of p] gate_velocity_x [of "move p"]
  by (auto simp add: particle_step_def)

lemma particle_step_cut: "particle.cut_velocity (particle_step p) = particle.cut_velocity p"
  by (simp add: particle_step_def gate_keeps move_cut)

lemma particle_step_is_fast: "is_fast (particle_step p) = is_fast p"
  by (simp add: is_fast_def particle_step_abs particle_step_cut)

lemma funpow_step_abs: "\<bar>velocity_x ((particle_step ^^ n) p)\<bar> = \<bar>velocity_x p\<bar>"
  by (induction n) (simp_all add: particle_step_abs)

lemma funpow_step_is_fast: "is_fast ((particle_step ^^ n) p) = is_fast p"
  by (induction n) (simp_all add: particle_step_is_fast)

lemma move_processed:
  "in_barrier (particle.x (move p)) \<Longrightarrow> processed (move p) = processed p"
  by (simp add: move_def advance_def walls_x_def walls_y_def reset_processed_def Let_def split: if_splits)

lemma move_outside:
  "\<not> in_barrier (particle.x (move p)) \<Longrightarrow> \<not> processed (move p)"
  by (simp add: move_def advance_def walls_x_def walls_y_def reset_processed_def Let_def split: if_splits)

lemma step_x: "particle.x (particle_step p) = particle.x (move p)"
  by (simp add: particle_step_def gate_keeps)

lemma step_processed:
  "processed (particle_step p) = in_barrier (particle.x (move p))"
  using move_processed [of p] move_outside [of p]
  by (cases "in_barrier (particle.x (move p))") (auto simp add: particle_step_def gate_unfold judged_def)

lemma judgements_processed:
  "processed p \<Longrightarrow> stays_in k p \<Longrightarrow> judgements k p = 0"
proof (induction k arbitrary: p)
  case 0
  show ?case by simp
next
  case (Suc k)
  from Suc.prems have inb: "in_barrier (particle.x (move p))" and rest: "stays_in k (particle_step p)"
    by simp_all
  from inb Suc.prems(1) have "\<not> judged (move p)"
    by (simp add: judged_def move_processed)
  moreover have "processed (particle_step p)"
    using inb by (simp add: step_processed)
  ultimately show ?case using Suc.IH rest by simp
qed

lemma judgements_fresh:
  assumes "\<not> processed p" "stays_in (Suc k) p"
  shows "judgements (Suc k) p = 1"
proof -
  from assms have inb: "in_barrier (particle.x (move p))" and rest: "stays_in k (particle_step p)"
    by simp_all
  from inb assms(1) have "judged (move p)"
    by (simp add: judged_def move_processed)
  moreover have "processed (particle_step p)"
    using inb by (simp add: step_processed)
  ultimately show ?thesis using judgements_processed rest by simp
qed

lemma judgements_le_1: "stays_in k p \<Longrightarrow> judgements k p \<le> 1"
proof (cases k)
  case 0
  then show ?thesis by simp
next
  case (Suc m)
  assume "stays_in k p"
  then show ?thesis using judgements_fresh [of p m] judgements_processed [of p k] Suc
    by (cases "processed p") simp_all
qed

subsection \<open>What the gate does over the frames of a visit\<close>

lemma demon_logic_processed: "processed q \<Longrightarrow> demon_logic q a = (q, a)"
  by (simp add: demon_logic_def judged_def)

lemma demon_logic_acts: "(demon_logic q a = (q, a)) = (\<not> judged q)"
proof (cases "judged q")
  case True
  then have "processed (fst (demon_logic q a))" and "\<not> processed q"
    by (simp_all add: demon_logic_def decide_def Let_def bounce_def judged_def)
  then have "fst (demon_logic q a) \<noteq> q" by auto
  with True show ?thesis by auto
next
  case False
  then show ?thesis by (simp add: demon_logic_def)
qed

lemma gate_acts_judgements: "gate_acts k p = judgements k p"
  by (induction k arbitrary: p) (simp_all add: demon_logic_acts)

lemma bits_of_demon_logic:
  "length (acc_bits (snd (demon_logic q acc0))) = (if gate_opens q then 1 else 0)"
  by (simp add: demon_logic_split allow_def acc0_def)

lemma bits_le_acts: "bits_committed k p \<le> gate_acts k p"
proof (induction k arbitrary: p)
  case 0
  show ?case by simp
next
  case (Suc k)
  have "length (acc_bits (snd (demon_logic (move p) acc0)))
      \<le> (if demon_logic (move p) acc0 = (move p, acc0) then 0 else 1)"
    by (simp add: bits_of_demon_logic demon_logic_acts gate_opens_unfold)
  with Suc.IH [of "particle_step p"] show ?case by simp
qed

lemma bits_committed_Suc_sum:
  "sum_list (map (bits_committed (Suc k)) ps)
     = length (filter (\<lambda>p. gate_opens (move p)) ps)
       + sum_list (map (bits_committed k) (map particle_step ps))"
  by (induction ps) (simp_all add: bits_of_demon_logic)

lemma run_memory_bits:
  "memory_bits (run k d)
     = memory_bits d @ replicate (sum_list (map (bits_committed k) (particles d))) True"
proof (induction k arbitrary: d)
  case 0
  show ?case by simp
next
  case (Suc k)
  let ?n = "sum_list (map (bits_committed k) (map particle_step (particles d)))"
  have "memory_bits (run (Suc k) d) = memory_bits (update d) @ replicate ?n True"
    using Suc.IH [of "update d"] by (simp add: update_particles)
  also have "\<dots> = memory_bits d @ replicate (crossings d + ?n) True"
    by (simp add: update_memory_bits replicate_add)
  also have "crossings d + ?n = sum_list (map (bits_committed (Suc k)) (particles d))"
    by (simp only: crossings_def bits_committed_Suc_sum)
  finally show ?case .
qed

subsection \<open>Maxwell_Demon_POO.py, particle by particle\<close>

lemma demon_logic_POO_split:
  "demon_logic_POO p (bits, t)
     = (gate_POO p, if gate_opens_POO p then bits @ [True] else bits, t \<or> gate_opens_POO p)"
  by (simp add: demon_logic_POO_def gate_POO_def gate_opens_POO_def)

lemma update_loop_POO_eq:
  "update_loop_POO ps (bits, t) =
     (map particle_step_POO ps,
      bits @ replicate (length (filter (\<lambda>p. gate_opens_POO (move_POO p)) ps)) True,
      t \<or> (\<exists>p \<in> set ps. gate_opens_POO (move_POO p)))"
proof (induction ps arbitrary: bits t)
  case Nil
  show ?case by simp
next
  case (Cons p ps)
  show ?case
    by (simp add: Cons.IH demon_logic_POO_split particle_step_POO_def replicate_app_Cons_same)
qed

lemma update_POO_particles:
  "MaxwellDemon_POO.particles (update_POO d) = map particle_step_POO (MaxwellDemon_POO.particles d)"
  by (simp add: update_POO_def update_loop_POO_eq)

lemma run_POO_particles:
  "MaxwellDemon_POO.particles (run_POO n d) = map (particle_step_POO ^^ n) (MaxwellDemon_POO.particles d)"
  by (induction n arbitrary: d) (simp_all add: update_POO_particles funpow_swap1)

lemma gate_POO_unfold:
  "gate_POO q = (if judged_POO q \<and> is_fast_POO q = (0 < velocity q)
                 then q\<lparr>velocity := - velocity q\<rparr> else q)"
  by (auto simp add: gate_POO_def demon_logic_POO_def judged_POO_def is_fast_POO_def)

lemma move_POO_velocity:
  "velocity (move_POO p) = velocity p \<or> velocity (move_POO p) = - velocity p"
  by (simp add: move_POO_def Let_def)

lemma move_POO_cut: "particle_POO.cut_velocity (move_POO p) = particle_POO.cut_velocity p"
  by (simp add: move_POO_def Let_def)

lemma particle_step_POO_abs: "\<bar>velocity (particle_step_POO p)\<bar> = \<bar>velocity p\<bar>"
  using move_POO_velocity [of p]
  by (auto simp add: particle_step_POO_def gate_POO_unfold)

lemma particle_step_POO_cut:
  "particle_POO.cut_velocity (particle_step_POO p) = particle_POO.cut_velocity p"
  by (simp add: particle_step_POO_def gate_POO_unfold move_POO_cut)

lemma particle_step_POO_is_fast: "is_fast_POO (particle_step_POO p) = is_fast_POO p"
  by (simp add: is_fast_POO_def particle_step_POO_abs particle_step_POO_cut)

lemma funpow_step_POO_abs: "\<bar>velocity ((particle_step_POO ^^ n) p)\<bar> = \<bar>velocity p\<bar>"
  by (induction n) (simp_all add: particle_step_POO_abs)

lemma funpow_step_POO_is_fast: "is_fast_POO ((particle_step_POO ^^ n) p) = is_fast_POO p"
  by (induction n) (simp_all add: particle_step_POO_is_fast)

subsection \<open>The loop of MAXXXX.py\<close>

lemma body_MAXXXX_bits:
  "globals.memory_bits (fst (body_MAXXXX i (g, b)))
     = globals.memory_bits g @ (if opens_MAXXXX i g then [True] else [])"
  by (simp add: opens_MAXXXX_def body_MAXXXX_def demon_MAXXXX_def move_array_def Let_def
      append_bit_def set_velocity_def set_position_def)

lemma body_MAXXXX_length:
  "length (positions (fst (body_MAXXXX i (g, b)))) = length (positions g)
   \<and> length (velocities (fst (body_MAXXXX i (g, b)))) = length (velocities g)"
  by (simp add: body_MAXXXX_def demon_MAXXXX_def move_array_def Let_def
      append_bit_def set_velocity_def set_position_def)

lemma body_MAXXXX_others:
  "j \<noteq> i \<Longrightarrow>
     positions (fst (body_MAXXXX i (g, b))) ! j = positions g ! j
     \<and> velocities (fst (body_MAXXXX i (g, b))) ! j = velocities g ! j"
  by (simp add: body_MAXXXX_def demon_MAXXXX_def move_array_def Let_def
      append_bit_def set_velocity_def set_position_def)

lemma opens_MAXXXX_cong:
  assumes "positions g ! i = positions g' ! i" "velocities g ! i = velocities g' ! i"
    "i < length (positions g)" "i < length (positions g')"
    "i < length (velocities g)" "i < length (velocities g')"
  shows "opens_MAXXXX i g = opens_MAXXXX i g'"
  using assms
  by (simp add: opens_MAXXXX_def body_MAXXXX_def demon_MAXXXX_def move_array_def Let_def
        append_bit_def set_velocity_def set_position_def)

lemma foldl_body_MAXXXX:
  assumes "n \<le> length (positions g)" "n \<le> length (velocities g)"
  shows "length (positions (fst (foldl (\<lambda>s i. body_MAXXXX i s) (g, b) [0..<n]))) = length (positions g)
   \<and> length (velocities (fst (foldl (\<lambda>s i. body_MAXXXX i s) (g, b) [0..<n]))) = length (velocities g)
   \<and> (\<forall>j\<ge>n. positions (fst (foldl (\<lambda>s i. body_MAXXXX i s) (g, b) [0..<n])) ! j = positions g ! j
            \<and> velocities (fst (foldl (\<lambda>s i. body_MAXXXX i s) (g, b) [0..<n])) ! j = velocities g ! j)
   \<and> globals.memory_bits (fst (foldl (\<lambda>s i. body_MAXXXX i s) (g, b) [0..<n]))
       = globals.memory_bits g @ replicate (length (filter (\<lambda>i. opens_MAXXXX i g) [0..<n])) True"
  using assms
proof (induction n)
  case 0
  show ?case by simp
next
  case (Suc n)
  obtain gn bn where s: "foldl (\<lambda>s i. body_MAXXXX i s) (g, b) [0..<n] = (gn, bn)"
    by (cases "foldl (\<lambda>s i. body_MAXXXX i s) (g, b) [0..<n]")
  from Suc s have len: "length (positions gn) = length (positions g)"
      "length (velocities gn) = length (velocities g)"
    and same: "\<And>j. n \<le> j \<Longrightarrow> positions gn ! j = positions g ! j \<and> velocities gn ! j = velocities g ! j"
    and bits: "globals.memory_bits gn
       = globals.memory_bits g @ replicate (length (filter (\<lambda>i. opens_MAXXXX i g) [0..<n])) True"
    by simp_all
  have op: "opens_MAXXXX n gn = opens_MAXXXX n g"
    using same [of n] len Suc.prems by (intro opens_MAXXXX_cong) simp_all
  have step: "foldl (\<lambda>s i. body_MAXXXX i s) (g, b) [0..<Suc n] = body_MAXXXX n (gn, bn)"
    by (simp add: s)
  show ?case
    unfolding step
    using body_MAXXXX_length [of n gn bn] body_MAXXXX_bits [of n gn bn]
      body_MAXXXX_others [of _ n gn bn] len same bits op
    by (auto simp add: replicate_append_same)
qed

lemma update_MAXXXX_n_bits:
  assumes "n \<le> length (positions g)" "n \<le> length (velocities g)"
  shows "globals.memory_bits (update_MAXXXX_n n g)
     = globals.memory_bits g @ replicate (length (filter (\<lambda>i. opens_MAXXXX i g) [0..<n])) True"
  using foldl_body_MAXXXX [OF assms, of False] by (simp add: update_MAXXXX_n_def)

subsection \<open>Unfolding for concrete runs\<close>

lemmas energy_defs = move_def advance_def walls_x_def walls_y_def reset_processed_def in_barrier_def
  judged_def gate_unfold gate_opens_unfold particle_step_def is_fast_def Particle_def

lemmas POO_defs = move_POO_def judged_POO_def gate_POO_unfold particle_step_POO_def
  is_fast_POO_def

lemmas array_defs = set_position_def set_velocity_def append_bit_def

subsection \<open>The walls and the memory over several frames\<close>



lemma run_memory_bits_mono: "length (memory_bits d) \<le> length (memory_bits (run k d))"
proof (induction k arbitrary: d)
  case 0
  show ?case by simp
next
  case (Suc k)
  have "length (memory_bits d) \<le> length (memory_bits (update d))"
    by (simp add: update_memory_bits)
  also have "\<dots> \<le> length (memory_bits (run k (update d)))" by (rule Suc.IH)
  finally show ?case by simp
qed

subsection \<open>The ledger\<close>

lemma ledger_ok_init: "ledger_ok (MaxwellDemon_init ps)"
  by (simp add: ledger_ok_def MaxwellDemon_init_def)

lemma ledger_ok_update: "ledger_ok d \<Longrightarrow> ledger_ok (update d)"
  by (auto simp add: ledger_ok_def update_bit_history update_energy_cost update_memory_bits
      split: if_splits)

lemma ledger_ok_run: "ledger_ok d \<Longrightarrow> ledger_ok (run n d)"
  by (induction n arbitrary: d) (simp_all add: ledger_ok_update)

lemma ledger_ok_energy:
  "ledger_ok d \<Longrightarrow> cumulative_energy d = of_int (int (length (memory_bits d))) * ln 2"
  by (cases "bit_history d = []") (simp_all add: ledger_ok_def cumulative_energy_def last_map)

text \<open>
  C9. In every frame a sample (number of bits, energy) is appended to the histories
  \<open>bit_history\<close> and \<open>energy_cost\<close> if and only if the number of bits in
  memory changed in that frame; a frame that commits no bit leaves both histories as
  they were.
\<close>

theorem history_sampled_iff_bits_changed:
  "bit_history (update d) =
     (if length (memory_bits (update d)) \<noteq> length (memory_bits d)
      then bit_history d @ [int (length (memory_bits (update d)))] else bit_history d)
   \<and> energy_cost (update d) =
     (if length (memory_bits (update d)) \<noteq> length (memory_bits d)
      then energy_cost d @ [of_int (int (length (memory_bits (update d)))) * ln 2]
      else energy_cost d)"
  unfolding bits_changed_iff by (simp only: update_bit_history update_energy_cost simp_thms)

text \<open>
  C3. In every state reached from a new demon by any number of frames, every energy
  sample of the history is its bit sample times \<open>ln 2\<close>, and the energy shown is the
  number of bits in memory times \<open>ln 2\<close>.
\<close>

theorem energy_is_bits_times_ln2:
  "energy_cost (run n (MaxwellDemon_init ps))
     = map (\<lambda>b. of_int b * ln 2) (bit_history (run n (MaxwellDemon_init ps)))
   \<and> cumulative_energy (run n (MaxwellDemon_init ps))
     = of_int (int (length (memory_bits (run n (MaxwellDemon_init ps))))) * ln 2"
  using ledger_ok_run [OF ledger_ok_init, of n ps] ledger_ok_energy [of "run n (MaxwellDemon_init ps)"]
  by (simp add: ledger_ok_def)


text \<open>
  C10. After initialization every velocity change is a sign negation of one velocity
  component: the walls in \<open>move\<close> negate \<open>velocity_x\<close> or \<open>velocity_y\<close>, the
  gate negates \<open>velocity_x\<close> and leaves \<open>velocity_y\<close>. So after any number of
  frames every particle has the absolute horizontal velocity and the fast or slow class
  it started with, in Maxwell_Demon_POO_2D_energy.py and in Maxwell_Demon_POO.py.
\<close>

theorem speed_and_class_conserved:
  "map (\<lambda>p. \<bar>velocity_x p\<bar>) (particles (run n d)) = map (\<lambda>p. \<bar>velocity_x p\<bar>) (particles d)
   \<and> map is_fast (particles (run n d)) = map is_fast (particles d)
   \<and> (velocity_x (move p) = velocity_x p \<or> velocity_x (move p) = - velocity_x p)
   \<and> (velocity_y (move p) = velocity_y p \<or> velocity_y (move p) = - velocity_y p)
   \<and> (velocity_x (gate p) = velocity_x p \<or> velocity_x (gate p) = - velocity_x p)
   \<and> velocity_y (gate p) = velocity_y p
   \<and> map (\<lambda>p. \<bar>velocity p\<bar>) (MaxwellDemon_POO.particles (run_POO n e))
       = map (\<lambda>p. \<bar>velocity p\<bar>) (MaxwellDemon_POO.particles e)
   \<and> map is_fast_POO (MaxwellDemon_POO.particles (run_POO n e))
       = map is_fast_POO (MaxwellDemon_POO.particles e)
   \<and> (velocity (move_POO q) = velocity q \<or> velocity (move_POO q) = - velocity q)
   \<and> (velocity (gate_POO q) = velocity q \<or> velocity (gate_POO q) = - velocity q)"
  using move_velocity_x [of p] move_velocity_y [of p] gate_velocity_x [of p] gate_keeps [of p]
    move_POO_velocity [of q]
  by (simp add: run_particles run_POO_particles funpow_step_abs funpow_step_is_fast
      funpow_step_POO_abs funpow_step_POO_is_fast gate_POO_unfold)


text \<open>
  C1, as the code has it. Maxwell_Demon_POO.py has no \<open>processed\<close> flag: its rule
  runs in every frame in which the particle is in the region. A slow particle that
  starts at \<open>x = 1\<close> with velocity \<open>0.5\<close> is in the region after each of two
  frames, is judged in both and leaves two bits in memory.
\<close>

theorem debounce_counterexample_POO:
  "stays_in_POO 2 (Particle_POO 1 0 0.5 2)
   \<and> judgements_POO 2 (Particle_POO 1 0 0.5 2) = 2
   \<and> MaxwellDemon_POO.memory_bits
       (run_POO 2 (MaxwellDemon_POO_init [Particle_POO 1 0 0.5 2])) = [True, True]"
  by (simp add: eval_nat_numeral POO_defs update_POO_def demon_logic_POO_def
      Particle_POO_def MaxwellDemon_POO_init_def)

text \<open>
  C1, amended. In Maxwell_Demon_POO_2D_energy.py a particle that is not processed when
  its visit begins and is in the barrier region after each of \<open>N \<ge> 1\<close> consecutive
  moves is judged in exactly one of these frames, the first: there \<open>demon_logic\<close>
  runs the decision rule, and in the frames after it \<open>demon_logic\<close> returns the
  particle and the accumulators as it got them, so that the visit commits at most one
  bit; a processed particle is never touched by the gate. Over any stretch of frames
  in the region the gate acts at most once and commits at most one bit, and the memory
  after \<open>k\<close> frames is the memory before them followed by the bits the gate
  committed for each particle. \<open>move\<close> leaves the flag as it is inside the region
  and clears it outside, and after each frame the flag is set exactly when the particle
  is in the region.
\<close>

theorem judged_once_per_visit:
  assumes "\<not> processed p" and "0 < N" and "stays_in N p"
  shows "judgements N p = 1 \<and> judged (move p)
    \<and> (stays_in k q \<longrightarrow> judgements k q \<le> 1)
    \<and> processed (move q) = (processed q \<and> in_barrier (particle.x (move q)))
    \<and> processed (particle_step q) = in_barrier (particle.x (particle_step q))
    \<and> particles (update d) = map particle_step (particles d)
    \<and> demon_logic (move p) a = decide (move p) a
    \<and> (processed q \<longrightarrow> demon_logic q a = (q, a))
    \<and> gate_acts N p = 1
    \<and> gate_acts (N - 1) (particle_step p) = 0
    \<and> bits_committed (N - 1) (particle_step p) = 0
    \<and> bits_committed N p \<le> 1
    \<and> (stays_in k q \<longrightarrow> gate_acts k q \<le> 1 \<and> bits_committed k q \<le> 1)
    \<and> memory_bits (run k d)
        = memory_bits d @ replicate (sum_list (map (bits_committed k) (particles d))) True"
proof -
  from assms(2) obtain m where N: "N = Suc m" by (cases N) simp_all
  from assms(3) N have inb: "in_barrier (particle.x (move p))"
    and rest: "stays_in m (particle_step p)" by simp_all
  have one: "judgements N p = 1"
    using judgements_fresh [of p m] assms N by simp
  have j: "judged (move p)"
    using inb assms(1) by (simp add: judged_def move_processed)
  have mv: "processed (move q) = (processed q \<and> in_barrier (particle.x (move q)))"
    using move_processed [of q] move_outside [of q] by blast
  have le: "stays_in k q \<longrightarrow> judgements k q \<le> 1"
    using judgements_le_1 [of k q] by blast
  have dec: "demon_logic (move p) a = decide (move p) a"
    using j by (simp add: demon_logic_def)
  have idle: "processed q \<longrightarrow> demon_logic q a = (q, a)"
    by (simp add: demon_logic_processed)
  have later: "gate_acts (N - 1) (particle_step p) = 0"
    using judgements_processed [of "particle_step p" m] rest inb N
    by (simp add: gate_acts_judgements step_processed)
  then have later_bits: "bits_committed (N - 1) (particle_step p) = 0"
    using bits_le_acts [of "N - 1" "particle_step p"] by simp
  have bits: "bits_committed N p \<le> 1"
    using bits_le_acts [of N p] one by (simp add: gate_acts_judgements)
  have le2: "stays_in k q \<longrightarrow> gate_acts k q \<le> 1 \<and> bits_committed k q \<le> 1"
    using le bits_le_acts [of k q] by (auto simp add: gate_acts_judgements)
  from one j mv le dec idle later later_bits bits le2 show ?thesis
    by (simp add: step_processed step_x update_particles gate_acts_judgements run_memory_bits)
qed

theorem judged_once_per_visit_witness:
  "\<not> processed (Particle 0.99 0 0.5 0 2) \<and> (0::nat) < 3
   \<and> stays_in 3 (Particle 0.99 0 0.5 0 2)
   \<and> judgements 3 (Particle 0.99 0 0.5 0 2) = 1
   \<and> stays_in 2 (particle_step (Particle 0.99 0 0.5 0 2))
   \<and> judgements 2 (particle_step (Particle 0.99 0 0.5 0 2)) \<le> 1
   \<and> gate_acts 3 (Particle 0.99 0 0.5 0 2) = 1
   \<and> gate_acts 2 (particle_step (Particle 0.99 0 0.5 0 2)) = 0
   \<and> bits_committed 3 (Particle 0.99 0 0.5 0 2) = 1
   \<and> memory_bits (run 3 (MaxwellDemon_init [Particle 0.99 0 0.5 0 2])) = [True]"
proof -
  have h1: "\<not> processed (Particle 0.99 0 0.5 0 2)" by (simp add: Particle_def)
  have h2: "(0::nat) < 3" by simp
  have h3: "stays_in 3 (Particle 0.99 0 0.5 0 2)"
    by (simp add: eval_nat_numeral energy_defs)
  have h4: "stays_in 2 (particle_step (Particle 0.99 0 0.5 0 2))"
    using h3 by (simp add: eval_nat_numeral)
  have first: "length (acc_bits (snd (demon_logic (move (Particle 0.99 0 0.5 0 2)) acc0))) = 1"
    by (simp add: energy_defs demon_logic_def decide_def allow_def acc0_def Let_def)
  have i: "memory_bits (MaxwellDemon_init [Particle 0.99 0 0.5 0 2]) = []"
    "particles (MaxwellDemon_init [Particle 0.99 0 0.5 0 2]) = [Particle 0.99 0 0.5 0 2]"
    by (simp_all add: MaxwellDemon_init_def)
  have s: "(3::nat) = Suc 2" by simp
  note t = judged_once_per_visit [OF h1 h2 h3, where k = 2
      and q = "particle_step (Particle 0.99 0 0.5 0 2)"]
    judged_once_per_visit [OF h1 h2 h3, where k = 3
      and d = "MaxwellDemon_init [Particle 0.99 0 0.5 0 2]"]
  have b: "bits_committed 3 (Particle 0.99 0 0.5 0 2) = 1"
    unfolding s bits_committed.simps using t(1) first by simp
  from t h1 h2 h3 h4 i b show ?thesis by simp
qed

text \<open>
  C2. When the gate judges a particle (the guard of line 126 of
  Maxwell_Demon_POO_2D_energy.py, of line 90 of Maxwell_Demon_POO.py), with toward
  meaning a positive and away a negative horizontal velocity: a fast particle moving
  toward has its velocity negated and no bit is committed; a fast particle moving away
  keeps its velocity and one bit is committed; a slow particle moving toward keeps its
  velocity and one bit is committed; a slow particle moving away has its velocity
  negated and no bit is committed.
\<close>

theorem decision_rule:
  assumes "judged q" and "judged_POO r"
  shows "(is_fast q \<and> 0 < velocity_x q \<longrightarrow>
            demon_logic q a = (q\<lparr>processed := True, velocity_x := - velocity_x q\<rparr>, a))
    \<and> (is_fast q \<and> velocity_x q < 0 \<longrightarrow> demon_logic q a = (q\<lparr>processed := True\<rparr>, allow a))
    \<and> (\<not> is_fast q \<and> 0 < velocity_x q \<longrightarrow> demon_logic q a = (q\<lparr>processed := True\<rparr>, allow a))
    \<and> (\<not> is_fast q \<and> velocity_x q < 0 \<longrightarrow>
            demon_logic q a = (q\<lparr>processed := True, velocity_x := - velocity_x q\<rparr>, a))
    \<and> acc_bits (allow a) = acc_bits a @ [True]
    \<and> new_bits_added (allow a) = new_bits_added a + 1
    \<and> (is_fast_POO r \<and> 0 < velocity r \<longrightarrow>
            demon_logic_POO r (bits, t) = (r\<lparr>velocity := - velocity r\<rparr>, bits, t))
    \<and> (is_fast_POO r \<and> velocity r < 0 \<longrightarrow> demon_logic_POO r (bits, t) = (r, bits @ [True], True))
    \<and> (\<not> is_fast_POO r \<and> 0 < velocity r \<longrightarrow> demon_logic_POO r (bits, t) = (r, bits @ [True], True))
    \<and> (\<not> is_fast_POO r \<and> velocity r < 0 \<longrightarrow>
            demon_logic_POO r (bits, t) = (r\<lparr>velocity := - velocity r\<rparr>, bits, t))"
proof -
  have e: "demon_logic q a = decide q a"
    using assms(1) by (simp add: demon_logic_def)
  have z: "0.95 < particle_POO.x r \<and> particle_POO.x r < 1.05"
    using assms(2) by (simp add: judged_POO_def)
  have d: "decide q a =
      (if is_fast q = (0 < velocity_x q) then (bounce (q\<lparr>processed := True\<rparr>), a)
       else (q\<lparr>processed := True\<rparr>, allow a))"
    by (simp add: decide_def Let_def is_fast_def)
  have p: "demon_logic_POO r (bits, t) =
      (if is_fast_POO r = (0 < velocity r)
       then (r\<lparr>velocity := velocity r * - 1\<rparr>, bits, t)
       else if velocity r \<noteq> 0 then (r, bits @ [True], True) else (r, bits, t))"
    using z by (auto simp add: demon_logic_POO_def is_fast_POO_def)
  show ?thesis
    unfolding e d p by (auto simp add: bounce_def allow_def)
qed

theorem decision_rule_witness:
  "judged (Particle 1 0 3 0 2) \<and> judged_POO (Particle_POO 1 0 3 2)
   \<and> demon_logic (Particle 1 0 3 0 2) acc0
        = ((Particle 1 0 3 0 2)\<lparr>processed := True, velocity_x := - 3\<rparr>, acc0)
   \<and> demon_logic (Particle 1 0 (- 3) 0 2) acc0
        = ((Particle 1 0 (- 3) 0 2)\<lparr>processed := True\<rparr>, allow acc0)
   \<and> demon_logic (Particle 1 0 1 0 2) acc0
        = ((Particle 1 0 1 0 2)\<lparr>processed := True\<rparr>, allow acc0)
   \<and> demon_logic (Particle 1 0 (- 1) 0 2) acc0
        = ((Particle 1 0 (- 1) 0 2)\<lparr>processed := True, velocity_x := 1\<rparr>, acc0)
   \<and> demon_logic_POO (Particle_POO 1 0 3 2) ([], False)
        = ((Particle_POO 1 0 3 2)\<lparr>velocity := - 3\<rparr>, [], False)
   \<and> demon_logic_POO (Particle_POO 1 0 (- 3) 2) ([], False)
        = (Particle_POO 1 0 (- 3) 2, [True], True)
   \<and> demon_logic_POO (Particle_POO 1 0 1 2) ([], False)
        = (Particle_POO 1 0 1 2, [True], True)
   \<and> demon_logic_POO (Particle_POO 1 0 (- 1) 2) ([], False)
        = ((Particle_POO 1 0 (- 1) 2)\<lparr>velocity := 1\<rparr>, [], False)"
proof -
  have j: "judged (Particle 1 0 3 0 2)" "judged (Particle 1 0 (- 3) 0 2)"
      "judged (Particle 1 0 1 0 2)" "judged (Particle 1 0 (- 1) 0 2)"
    by (simp_all add: judged_def in_barrier_def Particle_def)
  have k: "judged_POO (Particle_POO 1 0 3 2)" "judged_POO (Particle_POO 1 0 (- 3) 2)"
      "judged_POO (Particle_POO 1 0 1 2)" "judged_POO (Particle_POO 1 0 (- 1) 2)"
    by (simp_all add: judged_POO_def Particle_POO_def)
  have f: "is_fast (Particle 1 0 3 0 2)" "is_fast (Particle 1 0 (- 3) 0 2)"
      "\<not> is_fast (Particle 1 0 1 0 2)" "\<not> is_fast (Particle 1 0 (- 1) 0 2)"
      "is_fast_POO (Particle_POO 1 0 3 2)" "is_fast_POO (Particle_POO 1 0 (- 3) 2)"
      "\<not> is_fast_POO (Particle_POO 1 0 1 2)" "\<not> is_fast_POO (Particle_POO 1 0 (- 1) 2)"
    by (simp_all add: is_fast_def is_fast_POO_def Particle_def Particle_POO_def)
  have v: "velocity_x (Particle 1 0 3 0 2) = 3" "velocity_x (Particle 1 0 (- 3) 0 2) = - 3"
      "velocity_x (Particle 1 0 1 0 2) = 1" "velocity_x (Particle 1 0 (- 1) 0 2) = - 1"
      "velocity (Particle_POO 1 0 3 2) = 3" "velocity (Particle_POO 1 0 (- 3) 2) = - 3"
      "velocity (Particle_POO 1 0 1 2) = 1" "velocity (Particle_POO 1 0 (- 1) 2) = - 1"
    by (simp_all add: Particle_def Particle_POO_def)
  show ?thesis
    using decision_rule [OF j(1) k(1), of acc0 "[]" False]
      decision_rule [OF j(2) k(2), of acc0 "[]" False]
      decision_rule [OF j(3) k(3), of acc0 "[]" False]
      decision_rule [OF j(4) k(4), of acc0 "[]" False]
      j k f v
    by simp
qed

text \<open>
  C6, as the code has it. In Maxwell_Demon_POO_2D_energy.py a particle that enters the
  region with horizontal velocity zero is marked processed like any other.
\<close>

theorem zero_velocity_marked_processed:
  "in_barrier (particle.x (Particle 1 0 0 0 2)) \<and> velocity_x (Particle 1 0 0 0 2) = 0
   \<and> \<not> processed (Particle 1 0 0 0 2)
   \<and> processed (fst (demon_logic (Particle 1 0 0 0 2) acc0))"
  by (simp add: in_barrier_def Particle_def demon_logic_def judged_def decide_def Let_def
      bounce_def is_fast_def)

text \<open>
  C6, amended. For a particle in the barrier region with horizontal velocity zero the
  gate commits no bit and leaves position and velocity as they are. In
  Maxwell_Demon_POO_2D_energy.py, with a threshold that is not negative, the particle
  is marked processed all the same; in Maxwell_Demon_POO.py nothing changes.
\<close>

theorem stationary_particle:
  assumes "in_barrier (particle.x q)" and "velocity_x q = 0" and "0 \<le> particle.cut_velocity q"
    and "judged_POO r" and "velocity r = 0"
  shows "demon_logic q a = (q\<lparr>processed := True\<rparr>, a) \<and> demon_logic_POO r (bits, t) = (r, bits, t)"
  using assms
  by (cases "processed q")
    (simp_all add: demon_logic_def judged_def decide_def Let_def bounce_def is_fast_def
      demon_logic_POO_def)

theorem stationary_particle_witness:
  "in_barrier (particle.x (Particle 1 0 0 0 2)) \<and> velocity_x (Particle 1 0 0 0 2) = 0
   \<and> (0::real) \<le> particle.cut_velocity (Particle 1 0 0 0 2)
   \<and> judged_POO (Particle_POO 1 0 0 2) \<and> velocity (Particle_POO 1 0 0 2) = 0
   \<and> demon_logic (Particle 1 0 0 0 2) acc0 = ((Particle 1 0 0 0 2)\<lparr>processed := True\<rparr>, acc0)
   \<and> demon_logic_POO (Particle_POO 1 0 0 2) ([], False) = (Particle_POO 1 0 0 2, [], False)"
proof -
  have h: "in_barrier (particle.x (Particle 1 0 0 0 2))" "velocity_x (Particle 1 0 0 0 2) = 0"
      "0 \<le> particle.cut_velocity (Particle 1 0 0 0 2)"
      "judged_POO (Particle_POO 1 0 0 2)" "velocity (Particle_POO 1 0 0 2) = 0"
    by (simp_all add: in_barrier_def Particle_def judged_POO_def Particle_POO_def)
  from stationary_particle [OF h, of acc0 "[]" False] h show ?thesis by simp
qed





text \<open>
  C8, as the code has it. The ends of the interval are outside the region: a particle
  at \<open>x = 1 - 0.05\<close> or at \<open>x = 1 + 0.05\<close> is not judged and the gate leaves it
  and the accumulators as they are; so does MAXXXX.py at \<open>0.98\<close>.
\<close>

theorem barrier_endpoints_outside:
  "(0.95::real) = 1 - 0.05 \<and> (1.05::real) = 1 + 0.05
   \<and> \<not> judged (Particle 0.95 0 1 0 2) \<and> \<not> judged (Particle 1.05 0 1 0 2)
   \<and> demon_logic (Particle 0.95 0 1 0 2) acc0 = (Particle 0.95 0 1 0 2, acc0)
   \<and> demon_logic (Particle 1.05 0 1 0 2) acc0 = (Particle 1.05 0 1 0 2, acc0)
   \<and> demon_MAXXXX 0 (\<lparr>positions = [0.98], velocities = [1], globals.memory_bits = []\<rparr>, False)
       = (\<lparr>positions = [0.98], velocities = [1], globals.memory_bits = []\<rparr>, False)"
  by (simp add: judged_def in_barrier_def Particle_def demon_logic_def demon_MAXXXX_def)

text \<open>
  C8, amended. The gate acts on a particle exactly when its position lies in the open
  interval: \<open>1 - 0.05 < x < 1 + 0.05\<close> for an unprocessed particle of
  Maxwell_Demon_POO_2D_energy.py, \<open>1 - 0.02 < x < 1 + 0.02\<close> in MAXXXX.py.
\<close>

theorem barrier_region_open_interval:
  assumes "\<not> processed p" and "i < length (velocities g)"
  shows "(demon_logic p a \<noteq> (p, a)) = (1 - 0.05 < particle.x p \<and> particle.x p < 1 + 0.05)
    \<and> (demon_MAXXXX i (g, t) \<noteq> (g, t)) = (1 - 0.02 < positions g ! i \<and> positions g ! i < 1 + 0.02)"
proof -
  have a1: "(demon_logic p a \<noteq> (p, a)) = judged p"
  proof (cases "judged p")
    case True
    have "processed (fst (demon_logic p a))"
      using True by (simp add: demon_logic_def decide_def Let_def bounce_def)
    with assms(1) have "fst (demon_logic p a) \<noteq> p" by auto
    then show ?thesis using True by auto
  next
    case False
    then show ?thesis by (simp add: demon_logic_def)
  qed
  have a2: "judged p = (1 - 0.05 < particle.x p \<and> particle.x p < 1 + 0.05)"
    using assms(1) by (simp add: judged_def in_barrier_def)
  have b: "(demon_MAXXXX i (g, t) \<noteq> (g, t)) = (0.98 < positions g ! i \<and> positions g ! i < 1.02)"
  proof (cases "0.98 < positions g ! i \<and> positions g ! i < 1.02")
    case False
    then show ?thesis by (auto simp add: demon_MAXXXX_def)
  next
    case True
    show ?thesis
    proof (cases "\<bar>velocities g ! i\<bar> \<noteq> 2")
      case True
      have "globals.memory_bits (fst (demon_MAXXXX i (g, t))) \<noteq> globals.memory_bits g"
        using True \<open>0.98 < positions g ! i \<and> positions g ! i < 1.02\<close>
        by (simp add: demon_MAXXXX_def array_defs)
      then have "fst (demon_MAXXXX i (g, t)) \<noteq> g" by auto
      then show ?thesis using \<open>0.98 < positions g ! i \<and> positions g ! i < 1.02\<close> by auto
    next
      case False
      then have "velocities (fst (demon_MAXXXX i (g, t))) ! i = - (velocities g ! i)"
        using assms(2) \<open>0.98 < positions g ! i \<and> positions g ! i < 1.02\<close>
        by (simp add: demon_MAXXXX_def array_defs)
      moreover have "- (velocities g ! i) \<noteq> velocities g ! i" using False by auto
      ultimately have "fst (demon_MAXXXX i (g, t)) \<noteq> g" by auto
      then show ?thesis using \<open>0.98 < positions g ! i \<and> positions g ! i < 1.02\<close> by auto
    qed
  qed
  show ?thesis using a1 a2 b by simp
qed

theorem barrier_region_open_interval_witness:
  "\<not> processed (Particle 1 0 1 0 2)
   \<and> (0::nat) < length (velocities \<lparr>positions = [1], velocities = [2], globals.memory_bits = []\<rparr>)
   \<and> demon_logic (Particle 1 0 1 0 2) acc0 \<noteq> (Particle 1 0 1 0 2, acc0)
   \<and> demon_MAXXXX 0 (\<lparr>positions = [1], velocities = [2], globals.memory_bits = []\<rparr>, False)
       \<noteq> (\<lparr>positions = [1], velocities = [2], globals.memory_bits = []\<rparr>, False)"
proof -
  have h1: "\<not> processed (Particle 1 0 1 0 2)" by (simp add: Particle_def)
  have h2: "(0::nat) < length (velocities \<lparr>positions = [1], velocities = [2], globals.memory_bits = []\<rparr>)"
    by simp
  have v: "particle.x (Particle 1 0 1 0 2) = 1" by (simp add: Particle_def)
  from barrier_region_open_interval [OF h1 h2, where a = acc0 and t = False] h1 h2 v
  show ?thesis by simp
qed


text \<open>
  C4. In every frame the number of bits in memory does not decrease, and it grows by
  one for each crossing the gate allows in that frame: the memory after the frame is
  the memory before it followed by one bit per particle for which the trapdoor opens.
  This holds in Maxwell_Demon_POO_2D_energy.py and, for arrays of \<open>n\<close> particles, in
  MAXXXX.py.
\<close>

theorem bits_grow_by_allowed_crossings:
  assumes "length (positions g) = n" and "length (velocities g) = n"
  shows "memory_bits (update d) = memory_bits d @ replicate (crossings d) True
    \<and> length (memory_bits (update d)) = length (memory_bits d) + crossings d
    \<and> length (memory_bits d) \<le> length (memory_bits (update d))
    \<and> length (memory_bits d) \<le> length (memory_bits (run k d))
    \<and> globals.memory_bits (update_MAXXXX_n n g)
        = globals.memory_bits g @ replicate (length (filter (\<lambda>i. opens_MAXXXX i g) [0..<n])) True
    \<and> length (globals.memory_bits (update_MAXXXX_n n g))
        = length (globals.memory_bits g) + length (filter (\<lambda>i. opens_MAXXXX i g) [0..<n])
    \<and> length (globals.memory_bits g) \<le> length (globals.memory_bits (update_MAXXXX_n n g))"
proof -
  have m: "globals.memory_bits (update_MAXXXX_n n g)
        = globals.memory_bits g @ replicate (length (filter (\<lambda>i. opens_MAXXXX i g) [0..<n])) True"
    using assms by (intro update_MAXXXX_n_bits) simp_all
  show ?thesis
    unfolding m using run_memory_bits_mono [of d k] by (simp add: update_memory_bits)
qed

theorem bits_grow_by_allowed_crossings_witness:
  "length (positions \<lparr>positions = [0.99, 0.5], velocities = [1, 1], globals.memory_bits = []\<rparr>) = 2
   \<and> length (velocities \<lparr>positions = [0.99, 0.5], velocities = [1, 1], globals.memory_bits = []\<rparr>) = 2
   \<and> crossings (MaxwellDemon_init [Particle 0.99 0 1 0 2, Particle 0.5 0 1 0 2]) = 1
   \<and> memory_bits (update (MaxwellDemon_init [Particle 0.99 0 1 0 2, Particle 0.5 0 1 0 2])) = [True]
   \<and> length (filter (\<lambda>i. opens_MAXXXX i
         \<lparr>positions = [0.99, 0.5], velocities = [1, 1], globals.memory_bits = []\<rparr>) [0..<2]) = 1
   \<and> globals.memory_bits (update_MAXXXX_n 2
         \<lparr>positions = [0.99, 0.5], velocities = [1, 1], globals.memory_bits = []\<rparr>) = [True]"
proof -
  have h1: "length (positions \<lparr>positions = [0.99, 0.5], velocities = [1, 1], globals.memory_bits = []\<rparr>) = 2"
    and h2: "length (velocities \<lparr>positions = [0.99, 0.5], velocities = [1, 1], globals.memory_bits = []\<rparr>) = 2"
    by simp_all
  have c: "crossings (MaxwellDemon_init [Particle 0.99 0 1 0 2, Particle 0.5 0 1 0 2]) = 1"
    by (simp add: crossings_def MaxwellDemon_init_def energy_defs)
  have o: "length (filter (\<lambda>i. opens_MAXXXX i
         \<lparr>positions = [0.99, 0.5], velocities = [1, 1], globals.memory_bits = []\<rparr>) [0..<2]) = 1"
    by (simp add: eval_nat_numeral opens_MAXXXX_def body_MAXXXX_def demon_MAXXXX_def
        move_array_def array_defs Let_def)
  have i: "memory_bits (MaxwellDemon_init [Particle 0.99 0 1 0 2, Particle 0.5 0 1 0 2]) = []"
    by (simp add: MaxwellDemon_init_def)
  from bits_grow_by_allowed_crossings [OF h1 h2,
      where d = "MaxwellDemon_init [Particle 0.99 0 1 0 2, Particle 0.5 0 1 0 2]"] h1 h2 c o i
  show ?thesis by simp
qed





end
